theory Spec2Isabelle
  imports Main
begin

section \<open>Shared vocabulary of the construct library\<close>

text \<open>
  Optional properties of a TypeScript interface (\<^verbatim>\<open>name?: T\<close>) are \<open>T option\<close>, with
  \<open>None\<close> for \<^verbatim>\<open>undefined\<close>. A \<^verbatim>\<open>number\<close> that carries a tier or a count of days is an
  \<open>int\<close>. A construct is identified by its path in the construct tree, the list of ids
  from the root. An exception thrown by a constructor is the \<open>Inl\<close> of a sum.

  Where two interfaces of the source declare a property of the same name, the later
  record suffixes or prefixes it; the text before each record says which.
\<close>

datatype error = ValidationError string

text \<open>The test \<^verbatim>\<open>x !== undefined\<close> on an optional property.\<close>

definition is_defined :: "'a option \<Rightarrow> bool" where
  "is_defined x = (case x of None \<Rightarrow> False | Some _ \<Rightarrow> True)"

text \<open>
  The enums \<^verbatim>\<open>ec2.SubnetType\<close> and \<^verbatim>\<open>RemovalPolicy\<close> are declared in aws-ec2 and core;
  the members listed are those of the library's public interface, of which the code
  below names \<^verbatim>\<open>PUBLIC\<close>, \<^verbatim>\<open>PRIVATE_WITH_EGRESS\<close> and \<^verbatim>\<open>RETAIN\<close>.
\<close>

datatype SubnetType = PUBLIC | PRIVATE_WITH_EGRESS | PRIVATE_ISOLATED

datatype RemovalPolicy = DESTROY | RETAIN | SNAPSHOT | RETAIN_ON_UPDATE_OR_DELETE

record SubnetSelection =
  subnetType :: "SubnetType option"
  subnetGroupName :: "string option"
  onePerAz :: "bool option"

record IKey =
  keyArn :: string

section \<open>Aurora cluster instances (aws-rds, aurora-cluster-instance)\<close>

subsection \<open>Instance types\<close>

datatype InstanceType = PROVISIONED | SERVERLESS_V2

text \<open>
  \<^verbatim>\<open>ec2.InstanceType\<close> wraps the identifier of an instance type (such as \<^verbatim>\<open>r6g.4xlarge\<close>),
  which its \<^verbatim>\<open>toString()\<close> returns.
\<close>

record ec2_InstanceType =
  instanceTypeIdentifier :: string

text \<open>
  Modelled from the spec: \<^verbatim>\<open>ec2.InstanceType.of(ec2.InstanceClass.T3, ec2.InstanceSize.MEDIUM)\<close>
  is built by aws-ec2, which is not among the sources; its string is the \<^verbatim>\<open>t3.medium\<close> of
  the documented default \<^verbatim>\<open>db.t3.medium\<close>.
\<close>

definition InstanceType_of_T3_MEDIUM :: ec2_InstanceType where
  "InstanceType_of_T3_MEDIUM = \<lparr>instanceTypeIdentifier = ''t3.medium''\<rparr>"

text \<open>
  Class \<^verbatim>\<open>ClusterInstanceType\<close>: the private string \<^verbatim>\<open>instanceType\<close>, returned by
  \<^verbatim>\<open>toString()\<close>, and the public \<^verbatim>\<open>type\<close>.
\<close>

record ClusterInstanceType =
  toString :: string
  type :: InstanceType

definition ClusterInstanceType_serverlessV2 :: ClusterInstanceType where
  "ClusterInstanceType_serverlessV2 = \<lparr>toString = ''db.serverless'', type = SERVERLESS_V2\<rparr>"

definition ClusterInstanceType_provisioned :: "ec2_InstanceType option \<Rightarrow> ClusterInstanceType" where
  "ClusterInstanceType_provisioned instanceType =
     \<lparr>toString = instanceTypeIdentifier
                   (case instanceType of Some t \<Rightarrow> t | None \<Rightarrow> InstanceType_of_T3_MEDIUM),
      type = PROVISIONED\<rparr>"

text \<open>Turn a regular instance type into a database instance type.\<close>

definition databaseInstanceType :: "ClusterInstanceType \<Rightarrow> string" where
  "databaseInstanceType instanceType =
     (let type_str = toString instanceType
      in if type instanceType = SERVERLESS_V2 then type_str else ''db.'' @ type_str)"

subsection \<open>Property interfaces\<close>

text \<open>
  Modelled from the spec: the enum \<^verbatim>\<open>PerformanceInsightRetention\<close> is declared in props.ts,
  which is not among the sources. Its members are numbers of days; \<^verbatim>\<open>DEFAULT\<close> is the
  7 days of the option's documented default.
\<close>

type_synonym PerformanceInsightRetention = int

definition PerformanceInsightRetention_DEFAULT :: PerformanceInsightRetention where
  "PerformanceInsightRetention_DEFAULT = 7"

text \<open>
  \<^verbatim>\<open>ClusterInstanceOptions\<close>. The options \<^verbatim>\<open>parameters\<close>, \<^verbatim>\<open>parameterGroup\<close> and
  \<^verbatim>\<open>caCertificate\<close> only reach the parameter group and the certificate identifier of the
  emitted resource, through constructs defined elsewhere; they are left out.
\<close>

record ClusterInstanceOptions =
  instanceIdentifier :: "string option"
  autoMinorVersionUpgrade :: "bool option"
  enablePerformanceInsights :: "bool option"
  performanceInsightRetention :: "PerformanceInsightRetention option"
  performanceInsightEncryptionKey :: "IKey option"
  publiclyAccessible :: "bool option"
  availabilityZone :: "string option"
  preferredMaintenanceWindow :: "string option"
  allowMajorVersionUpgrade :: "bool option"
  isFromLegacyInstanceProps :: "bool option"
  applyImmediately :: "bool option"

text \<open>
  \<^verbatim>\<open>ProvisionedClusterInstanceProps\<close>: its \<^verbatim>\<open>instanceType\<close> and \<^verbatim>\<open>promotionTier\<close> carry the
  prefix \<open>prov_\<close>.
\<close>

record ProvisionedClusterInstanceProps = ClusterInstanceOptions +
  prov_instanceType :: "ec2_InstanceType option"
  prov_promotionTier :: "int option"

record ServerlessV2ClusterInstanceProps = ClusterInstanceOptions +
  scaleWithWriter :: "bool option"

text \<open>
  \<^verbatim>\<open>ClusterInstanceProps\<close>. The interface requires \<^verbatim>\<open>instanceType\<close>; the constructor of
  \<^verbatim>\<open>AuroraClusterInstance\<close> nevertheless tests it, so it is an option here and both
  factories store \<open>Some\<close>.
\<close>

record ClusterInstanceProps = ClusterInstanceOptions +
  instanceType :: "ClusterInstanceType option"
  promotionTier :: "int option"

text \<open>
  \<^verbatim>\<open>ClusterInstanceBindOptions\<close>. An object spread copies a key that is present with the
  value \<^verbatim>\<open>undefined\<close>, so \<open>bind_promotionTier\<close> tells an absent key (\<open>None\<close>) from a
  present one (\<open>Some v\<close>, with \<open>v = None\<close> for \<^verbatim>\<open>undefined\<close>). The monitoring role, the
  removal policy and the subnet group go to constructs defined elsewhere and are left
  out.
\<close>

record ClusterInstanceBindOptions =
  monitoringInterval :: "int option"
  bind_promotionTier :: "int option option"

text \<open>
  The part of \<^verbatim>\<open>IDatabaseCluster\<close> that the instance reads. \<open>isOwnedResource\<close> is the
  answer of \<^verbatim>\<open>Resource.isOwnedResource(cluster)\<close>; \<open>engineType\<close> is
  \<^verbatim>\<open>cluster.engine!.engineType\<close> (the engine is never undefined on a managed cluster).
\<close>

record DatabaseCluster =
  isOwnedResource :: bool
  vpcSubnets :: "SubnetSelection option"
  clusterIdentifier :: string
  engineType :: string

record AuroraClusterInstanceProps = ClusterInstanceProps +
  cluster :: DatabaseCluster
  monitoringIntervalSeconds :: "int option"

subsection \<open>The factory class \<^verbatim>\<open>ClusterInstance\<close>\<close>

text \<open>The private \<^verbatim>\<open>id\<close> of the class is \<open>ident\<close>, as \<open>id\<close> is the identity function.\<close>

record ClusterInstance =
  ident :: string
  props :: ClusterInstanceProps

text \<open>The empty object \<^verbatim>\<open>{}\<close>, the default of both factories' \<^verbatim>\<open>props\<close> parameter.\<close>

definition empty_ClusterInstanceOptions :: ClusterInstanceOptions where
  "empty_ClusterInstanceOptions =
     \<lparr>instanceIdentifier = None, autoMinorVersionUpgrade = None,
      enablePerformanceInsights = None, performanceInsightRetention = None,
      performanceInsightEncryptionKey = None, publiclyAccessible = None,
      availabilityZone = None, preferredMaintenanceWindow = None,
      allowMajorVersionUpgrade = None, isFromLegacyInstanceProps = None,
      applyImmediately = None\<rparr>"

definition empty_ProvisionedClusterInstanceProps :: ProvisionedClusterInstanceProps where
  "empty_ProvisionedClusterInstanceProps =
     ClusterInstanceOptions.extend empty_ClusterInstanceOptions
       (ProvisionedClusterInstanceProps.fields None None)"

definition empty_ServerlessV2ClusterInstanceProps :: ServerlessV2ClusterInstanceProps where
  "empty_ServerlessV2ClusterInstanceProps =
     ClusterInstanceOptions.extend empty_ClusterInstanceOptions
       (ServerlessV2ClusterInstanceProps.fields None)"

definition empty_ClusterInstanceBindOptions :: ClusterInstanceBindOptions where
  "empty_ClusterInstanceBindOptions = \<lparr>monitoringInterval = None, bind_promotionTier = None\<rparr>"

text \<open>
  \<^verbatim>\<open>{ ...props, instanceType: ClusterInstanceType.provisioned(props.instanceType) }\<close>:
  the common options and the promotion tier are copied, the instance type is replaced.
\<close>

definition ClusterInstance_provisioned ::
  "string \<Rightarrow> ProvisionedClusterInstanceProps \<Rightarrow> ClusterInstance" where
  "ClusterInstance_provisioned i p =
     \<lparr>ident = i,
      props = ClusterInstanceOptions.extend (ClusterInstanceOptions.truncate p)
                (ClusterInstanceProps.fields
                   (Some (ClusterInstanceType_provisioned (prov_instanceType p)))
                   (prov_promotionTier p))\<rparr>"

text \<open>
  \<^verbatim>\<open>{ ...props, promotionTier: props.scaleWithWriter ? 1 : 2,
       instanceType: ClusterInstanceType.serverlessV2() }\<close>
\<close>

definition ClusterInstance_serverlessV2 ::
  "string \<Rightarrow> ServerlessV2ClusterInstanceProps \<Rightarrow> ClusterInstance" where
  "ClusterInstance_serverlessV2 i p =
     \<lparr>ident = i,
      props = ClusterInstanceOptions.extend (ClusterInstanceOptions.truncate p)
                (ClusterInstanceProps.fields
                   (Some ClusterInstanceType_serverlessV2)
                   (Some (if scaleWithWriter p = Some True then 1 else 2)))\<rparr>"

subsection \<open>The resource \<^verbatim>\<open>AuroraClusterInstance\<close>\<close>

text \<open>
  The properties handed to \<^verbatim>\<open>CfnDBInstance\<close>, under their CloudFormation names, with the
  scope and the id the resource is created at.
\<close>

record CfnDBInstance =
  cfn_scope :: "string list"
  cfn_id :: string
  Engine :: string
  DBClusterIdentifier :: string
  PromotionTier :: "int option"
  DBInstanceClass :: "string option"
  PubliclyAccessible :: "bool option"
  AvailabilityZone :: "string option"
  PreferredMaintenanceWindow :: "string option"
  EnablePerformanceInsights :: "bool option"
  PerformanceInsightsKMSKeyId :: "string option"
  PerformanceInsightsRetentionPeriod :: "int option"
  MonitoringInterval :: "int option"
  AutoMinorVersionUpgrade :: "bool option"
  AllowMajorVersionUpgrade :: "bool option"
  ApplyImmediately :: "bool option"

text \<open>
  The object under construction. Its \<^verbatim>\<open>type\<close>, \<^verbatim>\<open>performanceInsightRetention\<close> and
  \<^verbatim>\<open>performanceInsightEncryptionKey\<close> carry the prefix \<open>this_\<close>; \<open>resource\<close> is the
  \<^verbatim>\<open>CfnDBInstance\<close> it creates. The attributes read back from the resource (ARN,
  endpoint, identifier) are tokens of the resource and are left out.
\<close>

record AuroraClusterInstance =
  node_path :: "string list"
  tier :: int
  this_type :: InstanceType
  instanceSize :: "string option"
  performanceInsightsEnabled :: bool
  this_performanceInsightRetention :: "PerformanceInsightRetention option"
  this_performanceInsightEncryptionKey :: "IKey option"
  resource :: CfnDBInstance

text \<open>
  The constructor, in the order of the source: the tier and its check, the public
  accessibility, the instance type, the Performance Insights options and their check,
  then the \<^verbatim>\<open>CfnDBInstance\<close>. JavaScript's \<^verbatim>\<open>a || b\<close> on a number takes \<^verbatim>\<open>b\<close> when
  \<^verbatim>\<open>a\<close> is 0. The call \<^verbatim>\<open>addConstructMetadata(this, props)\<close> records analytics metadata on
  the construct node and touches none of the fields below. The constructs and helpers
  defined elsewhere that the constructor calls (the base class \<^verbatim>\<open>Resource\<close>, the subnet
  selection of the VPC, the parameter group, \<^verbatim>\<open>CfnDBInstance\<close>) are taken to return: the
  two checks below are the errors that this constructor raises itself.
\<close>

definition AuroraClusterInstance ::
  "string list \<Rightarrow> string \<Rightarrow> AuroraClusterInstanceProps \<Rightarrow> error + AuroraClusterInstance" where
  "AuroraClusterInstance scope i p =
     (let legacy = (isFromLegacyInstanceProps p = Some True);
          this_path = scope @ [if legacy then i @ ''Wrapper'' else i];
          this_tier = (case promotionTier p of Some t \<Rightarrow> t | None \<Rightarrow> 2)
      in if this_tier > 15
         then Inl (ValidationError ''promotionTier must be between 0-15'')
         else
          let isInPublicSubnet =
                (case vpcSubnets (cluster p) of
                   None \<Rightarrow> None
                 | Some sel \<Rightarrow> Some (subnetType sel = Some PUBLIC));
              publiclyAccessible' =
                (if isOwnedResource (cluster p)
                 then (case publiclyAccessible p of
                         Some b \<Rightarrow> Some b
                       | None \<Rightarrow> isInPublicSubnet)
                 else publiclyAccessible p);
              instanceType' =
                (case instanceType p of
                   Some t \<Rightarrow> t
                 | None \<Rightarrow> ClusterInstanceType_serverlessV2);
              this_instanceSize =
                (if type instanceType' = PROVISIONED
                 then map_option toString (instanceType p)
                 else None);
              enablePerformanceInsights' =
                (enablePerformanceInsights p = Some True
                 \<or> is_defined (performanceInsightRetention p)
                 \<or> is_defined (performanceInsightEncryptionKey p))
          in if enablePerformanceInsights' \<and> enablePerformanceInsights p = Some False
             then Inl (ValidationError
               ''`enablePerformanceInsights` disabled, but `performanceInsightRetention` or `performanceInsightEncryptionKey` was set'')
             else
              let retention =
                    (if enablePerformanceInsights'
                     then Some (case performanceInsightRetention p of
                                  Some r \<Rightarrow> if r \<noteq> 0 then r
                                            else PerformanceInsightRetention_DEFAULT
                                | None \<Rightarrow> PerformanceInsightRetention_DEFAULT)
                     else None)
              in Inr
                \<lparr>node_path = this_path,
                 tier = this_tier,
                 this_type = type instanceType',
                 instanceSize = this_instanceSize,
                 performanceInsightsEnabled = enablePerformanceInsights',
                 this_performanceInsightRetention = retention,
                 this_performanceInsightEncryptionKey = performanceInsightEncryptionKey p,
                 resource =
                   \<lparr>cfn_scope = (if legacy then scope else this_path),
                    cfn_id = (if legacy then i else ''Resource''),
                    Engine = engineType (cluster p),
                    DBClusterIdentifier = clusterIdentifier (cluster p),
                    PromotionTier = (if legacy then None else Some this_tier),
                    DBInstanceClass =
                      (case instanceType p of
                         Some _ \<Rightarrow> Some (databaseInstanceType instanceType')
                       | None \<Rightarrow> None),
                    PubliclyAccessible = publiclyAccessible',
                    AvailabilityZone = availabilityZone p,
                    PreferredMaintenanceWindow = preferredMaintenanceWindow p,
                    EnablePerformanceInsights =
                      (if enablePerformanceInsights' then Some True
                       else enablePerformanceInsights p),
                    PerformanceInsightsKMSKeyId =
                      map_option keyArn (performanceInsightEncryptionKey p),
                    PerformanceInsightsRetentionPeriod = retention,
                    MonitoringInterval = monitoringIntervalSeconds p,
                    AutoMinorVersionUpgrade = autoMinorVersionUpgrade p,
                    AllowMajorVersionUpgrade = allowMajorVersionUpgrade p,
                    ApplyImmediately = applyImmediately p\<rparr>\<rparr>)"

text \<open>
  \<^verbatim>\<open>bind\<close>: \<^verbatim>\<open>new AuroraClusterInstance(scope, this.id, { cluster, ...this.props, ...props })\<close>.
  The only key the two spread objects share is \<^verbatim>\<open>promotionTier\<close>, where a key present in
  the bind options wins, whatever its value.
\<close>

definition bind ::
  "ClusterInstance \<Rightarrow> string list \<Rightarrow> DatabaseCluster \<Rightarrow> ClusterInstanceBindOptions
     \<Rightarrow> error + AuroraClusterInstance" where
  "bind this scope cl opts =
     AuroraClusterInstance scope (ident this)
       (ClusterInstanceProps.extend
          ((props this)\<lparr>promotionTier :=
             (case bind_promotionTier opts of
                None \<Rightarrow> promotionTier (props this)
              | Some v \<Rightarrow> v)\<rparr>)
          (AuroraClusterInstanceProps.fields cl (monitoringInterval opts)))"


section \<open>Tokens\<close>

text \<open>
  Modelled from the spec: a token is a placeholder value resolved lazily at synthesis
  time, used to reference attributes not known until deploy time. The class behind it and
  the \<^verbatim>\<open>ref\<close> of a CloudFormation resource belong to core, which is not among the sources.
  A string attribute is either a concrete string or a token; the token \<open>Ref p\<close>
  stands for the resource at path \<open>p\<close> of the construct tree. Synthesis resolves it to
  the \<^verbatim>\<open>{ "Ref": ... }\<close> intrinsic over the logical id that the stack allocates to \<open>p\<close>.
\<close>

datatype Token = Ref "string list"

datatype str = Concrete string | Tokenized Token

datatype resolved = Literal string | RefIntrinsic string

fun resolve :: "(string list \<Rightarrow> string) \<Rightarrow> str \<Rightarrow> resolved" where
  "resolve logicalId (Concrete s) = Literal s"
| "resolve logicalId (Tokenized (Ref p)) = RefIntrinsic (logicalId p)"

section \<open>Redshift cluster subnet groups (aws-redshift-alpha, subnet-group)\<close>

record SelectedSubnets =
  subnetIds :: "string list"

text \<open>
  \<^verbatim>\<open>ec2.IVpc\<close>: its method \<^verbatim>\<open>selectSubnets\<close> is implemented by aws-ec2 and is taken as
  given, a function from the selection to the subnets selected.
\<close>

record IVpc =
  selectSubnets :: "SubnetSelection \<Rightarrow> SelectedSubnets"

text \<open>\<^verbatim>\<open>ClusterSubnetGroupProps\<close>; its \<^verbatim>\<open>vpcSubnets\<close> is \<open>vpcSubnets'\<close>.\<close>

record ClusterSubnetGroupProps =
  description :: string
  vpc :: IVpc
  vpcSubnets' :: "SubnetSelection option"
  removalPolicy :: "RemovalPolicy option"

record RemovalPolicyOptions =
  applyToUpdateReplacePolicy :: "bool option"

text \<open>
  The generated resource class \<^verbatim>\<open>CfnClusterSubnetGroup\<close>: the path it is created at, its two
  properties under their CloudFormation names, and the calls of \<^verbatim>\<open>applyRemovalPolicy\<close>
  made on it, in order, with their arguments (the method belongs to core).
\<close>

record CfnClusterSubnetGroup =
  cfn_path :: "string list"
  Description :: string
  SubnetIds :: "string list"
  removalPolicyCalls :: "(RemovalPolicy \<times> RemovalPolicyOptions) list"

definition CfnClusterSubnetGroup ::
  "string list \<Rightarrow> string \<Rightarrow> string \<Rightarrow> string list \<Rightarrow> CfnClusterSubnetGroup" where
  "CfnClusterSubnetGroup scope i descr ids =
     \<lparr>cfn_path = scope @ [i], Description = descr, SubnetIds = ids, removalPolicyCalls = []\<rparr>"

text \<open>
  \<^verbatim>\<open>applyRemovalPolicy\<close> is a method of core's \<^verbatim>\<open>CfnResource\<close>, which is not among the
  sources: what the model keeps of a call is the call itself, appended to the calls made
  on the resource so far.
\<close>

definition applyRemovalPolicy ::
  "RemovalPolicy \<Rightarrow> RemovalPolicyOptions \<Rightarrow> CfnClusterSubnetGroup \<Rightarrow> CfnClusterSubnetGroup" where
  "applyRemovalPolicy policy options r =
     r\<lparr>removalPolicyCalls := removalPolicyCalls r @ [(policy, options)]\<rparr>"

text \<open>
  Modelled from the spec: \<^verbatim>\<open>ref\<close> is inherited from core, which is not among the sources.
  It is the token that refers to the resource itself.
\<close>

definition ref :: "CfnClusterSubnetGroup \<Rightarrow> str" where
  "ref r = Tokenized (Ref (cfn_path r))"

record ClusterSubnetGroup =
  group_path :: "string list"
  subnetGroup :: CfnClusterSubnetGroup
  clusterSubnetGroupName :: str

definition ClusterSubnetGroup ::
  "string list \<Rightarrow> string \<Rightarrow> ClusterSubnetGroupProps \<Rightarrow> ClusterSubnetGroup" where
  "ClusterSubnetGroup scope i p =
     (let this_path = scope @ [i];
          selected = selectSubnets (vpc p)
            (case vpcSubnets' p of
               Some sel \<Rightarrow> sel
             | None \<Rightarrow> \<lparr>subnetType = Some PRIVATE_WITH_EGRESS, subnetGroupName = None,
                         onePerAz = None\<rparr>);
          subnetGroup0 = CfnClusterSubnetGroup this_path ''Default'' (description p)
                           (subnetIds selected);
          subnetGroup1 = applyRemovalPolicy
                           (case removalPolicy p of Some rp \<Rightarrow> rp | None \<Rightarrow> RETAIN)
                           \<lparr>applyToUpdateReplacePolicy = Some True\<rparr> subnetGroup0
      in \<lparr>group_path = this_path,
          subnetGroup = subnetGroup1,
          clusterSubnetGroupName = ref subnetGroup1\<rparr>)"

section \<open>Immutable roles (aws-iam, private/immutable-role)\<close>

record PolicyStatement =
  actions :: "string list"
  resources :: "string list"

record Policy =
  policyName :: string
  statements :: "PolicyStatement list"

record IManagedPolicy =
  managedPolicyArn :: string

text \<open>
  The attributes that \<^verbatim>\<open>IRole\<close> and \<^verbatim>\<open>ImmutableRole\<close> have in common. A stack is named
  by its path; a policy fragment is the principal JSON it holds.
\<close>

record RoleAttributes =
  assumeRoleAction :: string
  policyFragment :: "(string \<times> string list) list"
  principalAccount :: "string option"
  roleArn :: str
  roleName :: str
  stack :: "string list"

text \<open>
  The wrapped \<^verbatim>\<open>IRole\<close>, over the types \<open>'p\<close> of principals and \<open>'g\<close> of grants: its
  environment, the default child of its node, the policies attached to it so far, and its
  three granting methods, which its own class implements and which are taken as given.
\<close>

record ('p, 'g) IRole = RoleAttributes +
  role_path :: "string list"
  env_account :: string
  env_region :: string
  node_defaultChild :: "string list option"
  inlinePolicies :: "Policy list"
  managedPolicies :: "IManagedPolicy list"
  policyStatements :: "PolicyStatement list"
  grant :: "'p \<Rightarrow> string list \<Rightarrow> 'g"
  grantPassRole :: "'p \<Rightarrow> 'g"
  grantAssumeRole :: "'p \<Rightarrow> 'g"

text \<open>
  The arguments a decorated method is called with. The decorator \<^verbatim>\<open>@MethodMetadata()\<close>
  and \<^verbatim>\<open>addConstructMetadata\<close> belong to core/lib/metadata-resource; they record analytics
  metadata on the construct node. They are parameters of the model: \<open>MethodMetadata\<close> maps
  the method's name, its arguments and the metadata of the node to the new metadata, and
  \<open>addConstructMetadata\<close> gives the metadata of the node after construction.
\<close>

datatype 'p MethodArgs =
    PolicyArg Policy
  | ManagedPolicyArg IManagedPolicy
  | StatementArg PolicyStatement
  | GrantArgs 'p "string list"
  | PrincipalArg 'p

text \<open>
  The wrapper. \<open>account\<close> and \<open>region\<close> are the environment handed to \<^verbatim>\<open>Resource\<close>,
  \<open>dependencyRoots\<close> what \<^verbatim>\<open>Dependable.implement\<close> registers, \<open>defaultChild\<close> the default
  child of the node and \<open>metadata\<close> the metadata of the node. The field
  \<^verbatim>\<open>grantPrincipal\<close> is the object itself and has no field of its own.
\<close>

record ('p, 'g, 'm) ImmutableRole = RoleAttributes +
  immutable_path :: "string list"
  account :: string
  region :: string
  role :: "('p, 'g) IRole"
  addGrantsToResources :: bool
  dependencyRoots :: "string list list"
  defaultChild :: "string list option"
  metadata :: 'm

definition ImmutableRole ::
  "(('p, 'g) IRole \<Rightarrow> 'm) \<Rightarrow> string list \<Rightarrow> string \<Rightarrow> ('p, 'g) IRole \<Rightarrow> bool
     \<Rightarrow> ('p, 'g, 'm) ImmutableRole" where
  "ImmutableRole addConstructMetadata scope i r flag =
     \<lparr>assumeRoleAction = assumeRoleAction r,
      policyFragment = policyFragment r,
      principalAccount = principalAccount r,
      roleArn = roleArn r,
      roleName = roleName r,
      stack = stack r,
      immutable_path = scope @ [i],
      account = env_account r,
      region = env_region r,
      role = r,
      addGrantsToResources = flag,
      dependencyRoots = [role_path r],
      defaultChild = node_defaultChild r,
      metadata = addConstructMetadata r\<rparr>"

text \<open>
  The methods take the wrapper and return it with the value returned; the two that return
  \<^verbatim>\<open>void\<close> return the wrapper alone.
\<close>

definition attachInlinePolicy ::
  "(string \<Rightarrow> 'p MethodArgs \<Rightarrow> 'm \<Rightarrow> 'm) \<Rightarrow> ('p, 'g, 'm) ImmutableRole \<Rightarrow> Policy
     \<Rightarrow> ('p, 'g, 'm) ImmutableRole" where
  "attachInlinePolicy MethodMetadata this policy =
     this\<lparr>metadata := MethodMetadata ''attachInlinePolicy'' (PolicyArg policy) (metadata this)\<rparr>"

definition addManagedPolicy ::
  "(string \<Rightarrow> 'p MethodArgs \<Rightarrow> 'm \<Rightarrow> 'm) \<Rightarrow> ('p, 'g, 'm) ImmutableRole \<Rightarrow> IManagedPolicy
     \<Rightarrow> ('p, 'g, 'm) ImmutableRole" where
  "addManagedPolicy MethodMetadata this policy =
     this\<lparr>metadata := MethodMetadata ''addManagedPolicy'' (ManagedPolicyArg policy) (metadata this)\<rparr>"

record AddToPrincipalPolicyResult =
  statementAdded :: bool
  policyDependable :: "string list list"

definition addToPrincipalPolicy ::
  "(string \<Rightarrow> 'p MethodArgs \<Rightarrow> 'm \<Rightarrow> 'm) \<Rightarrow> ('p, 'g, 'm) ImmutableRole \<Rightarrow> PolicyStatement
     \<Rightarrow> ('p, 'g, 'm) ImmutableRole \<times> AddToPrincipalPolicyResult" where
  "addToPrincipalPolicy MethodMetadata this statement =
     (let this1 = this\<lparr>metadata :=
                    MethodMetadata ''addToPrincipalPolicy'' (StatementArg statement) (metadata this)\<rparr>;
          pretendSuccess = (\<not> addGrantsToResources this1)
      in (this1, \<lparr>statementAdded = pretendSuccess, policyDependable = []\<rparr>))"

definition addToPolicy ::
  "(string \<Rightarrow> 'p MethodArgs \<Rightarrow> 'm \<Rightarrow> 'm) \<Rightarrow> ('p, 'g, 'm) ImmutableRole \<Rightarrow> PolicyStatement
     \<Rightarrow> ('p, 'g, 'm) ImmutableRole \<times> bool" where
  "addToPolicy MethodMetadata this statement =
     (let this1 = this\<lparr>metadata :=
                    MethodMetadata ''addToPolicy'' (StatementArg statement) (metadata this)\<rparr>;
          (this2, result) = addToPrincipalPolicy MethodMetadata this1 statement
      in (this2, statementAdded result))"

definition ImmutableRole_grant ::
  "(string \<Rightarrow> 'p MethodArgs \<Rightarrow> 'm \<Rightarrow> 'm) \<Rightarrow> ('p, 'g, 'm) ImmutableRole \<Rightarrow> 'p \<Rightarrow> string list
     \<Rightarrow> ('p, 'g, 'm) ImmutableRole \<times> 'g" where
  "ImmutableRole_grant MethodMetadata this grantee acts =
     (this\<lparr>metadata := MethodMetadata ''grant'' (GrantArgs grantee acts) (metadata this)\<rparr>,
      grant (role this) grantee acts)"

definition ImmutableRole_grantPassRole ::
  "(string \<Rightarrow> 'p MethodArgs \<Rightarrow> 'm \<Rightarrow> 'm) \<Rightarrow> ('p, 'g, 'm) ImmutableRole \<Rightarrow> 'p
     \<Rightarrow> ('p, 'g, 'm) ImmutableRole \<times> 'g" where
  "ImmutableRole_grantPassRole MethodMetadata this grantee =
     (this\<lparr>metadata := MethodMetadata ''grantPassRole'' (PrincipalArg grantee) (metadata this)\<rparr>,
      grantPassRole (role this) grantee)"

definition ImmutableRole_grantAssumeRole ::
  "(string \<Rightarrow> 'p MethodArgs \<Rightarrow> 'm \<Rightarrow> 'm) \<Rightarrow> ('p, 'g, 'm) ImmutableRole \<Rightarrow> 'p
     \<Rightarrow> ('p, 'g, 'm) ImmutableRole \<times> 'g" where
  "ImmutableRole_grantAssumeRole MethodMetadata this identity =
     (this\<lparr>metadata := MethodMetadata ''grantAssumeRole'' (PrincipalArg identity) (metadata this)\<rparr>,
      grantAssumeRole (role this) identity)"

section \<open>Aurora cluster instances: properties\<close>

text \<open>The definitions that the record package gives for extending and truncating records.\<close>

lemmas props_defs = ClusterInstanceOptions.defs ProvisionedClusterInstanceProps.defs
  ServerlessV2ClusterInstanceProps.defs ClusterInstanceProps.defs AuroraClusterInstanceProps.defs

lemmas empty_defs = empty_ProvisionedClusterInstanceProps_def empty_ServerlessV2ClusterInstanceProps_def
  empty_ClusterInstanceOptions_def empty_ClusterInstanceBindOptions_def

text \<open>What a successful construction fixes, read off the constructor.\<close>

lemma AuroraClusterInstance_Inr:
  assumes "AuroraClusterInstance scope i p = Inr inst"
  shows "tier inst = (case promotionTier p of Some t \<Rightarrow> t | None \<Rightarrow> 2)"
    and "tier inst \<le> 15"
    and "performanceInsightsEnabled inst =
           (enablePerformanceInsights p = Some True
            \<or> is_defined (performanceInsightRetention p)
            \<or> is_defined (performanceInsightEncryptionKey p))"
    and "PromotionTier (resource inst) =
           (if isFromLegacyInstanceProps p = Some True then None else Some (tier inst))"
  using assms
  by (auto simp: AuroraClusterInstance_def Let_def split: if_splits)

text \<open>The properties that \<^verbatim>\<open>bind\<close> hands to the constructor, for each factory.\<close>

lemma bind_provisioned_eq:
  "bind (ClusterInstance_provisioned i p) scope cl opts =
   AuroraClusterInstance scope i
     (ClusterInstanceProps.extend
        (ClusterInstanceOptions.extend (ClusterInstanceOptions.truncate p)
           (ClusterInstanceProps.fields
              (Some (ClusterInstanceType_provisioned (prov_instanceType p)))
              (case bind_promotionTier opts of None \<Rightarrow> prov_promotionTier p | Some v \<Rightarrow> v)))
        (AuroraClusterInstanceProps.fields cl (monitoringInterval opts)))"
  by (cases "bind_promotionTier opts")
    (simp_all add: bind_def ClusterInstance_provisioned_def props_defs)

lemma bind_serverlessV2_eq:
  "bind (ClusterInstance_serverlessV2 i p) scope cl opts =
   AuroraClusterInstance scope i
     (ClusterInstanceProps.extend
        (ClusterInstanceOptions.extend (ClusterInstanceOptions.truncate p)
           (ClusterInstanceProps.fields
              (Some ClusterInstanceType_serverlessV2)
              (case bind_promotionTier opts of
                 None \<Rightarrow> Some (if scaleWithWriter p = Some True then 1 else 2)
               | Some v \<Rightarrow> v)))
        (AuroraClusterInstanceProps.fields cl (monitoringInterval opts)))"
  by (cases "bind_promotionTier opts")
    (simp_all add: bind_def ClusterInstance_serverlessV2_def props_defs)

text \<open>The emitted class is \<^verbatim>\<open>databaseInstanceType\<close> of the instance type given.\<close>

lemma AuroraClusterInstance_DBInstanceClass:
  assumes "AuroraClusterInstance scope i p = Inr inst"
  shows "DBInstanceClass (resource inst) = map_option databaseInstanceType (instanceType p)"
  using assms
  by (cases "instanceType p") (auto simp: AuroraClusterInstance_def Let_def split: if_splits)

lemma databaseInstanceType_provisioned:
  "databaseInstanceType (ClusterInstanceType_provisioned t) =
     ''db.'' @ (case t of Some x \<Rightarrow> instanceTypeIdentifier x | None \<Rightarrow> ''t3.medium'')"
  by (cases t)
    (simp_all add: databaseInstanceType_def ClusterInstanceType_provisioned_def
       InstanceType_of_T3_MEDIUM_def)

lemma databaseInstanceType_serverlessV2:
  "databaseInstanceType ClusterInstanceType_serverlessV2 = ''db.serverless''"
  by (simp add: databaseInstanceType_def ClusterInstanceType_serverlessV2_def)

text \<open>A result that is not an error holds a value.\<close>

lemma Inr_obtain:
  assumes "\<not> isl r"
  obtains x where "r = Inr x"
  using assms by (cases r) simp_all

text \<open>
  Claim C2, as amended. The constructor checks the promotion tier before the Performance
  Insights options, so the equivalence holds for a tier of at most 15 (the default 2
  included): construction then raises a validation error if and only if
  \<^verbatim>\<open>enablePerformanceInsights\<close> is explicitly false while \<^verbatim>\<open>performanceInsightRetention\<close> or
  \<^verbatim>\<open>performanceInsightEncryptionKey\<close> is set. When it does not raise,
  \<^verbatim>\<open>performanceInsightsEnabled\<close> is true exactly when \<^verbatim>\<open>enablePerformanceInsights\<close> is true or
  one of the two options is set, and the retention of the result is the given retention
  (7 days when none is given) when insights are enabled and undefined otherwise. The
  retention given is a member of the enum, a positive number of days, hence not 0.
\<close>

theorem performanceInsights_validation:
  assumes "(case promotionTier p of Some t \<Rightarrow> t | None \<Rightarrow> 2) \<le> 15"
      and "performanceInsightRetention p \<noteq> Some 0"
  shows "isl (AuroraClusterInstance scope i p) =
           (enablePerformanceInsights p = Some False
            \<and> (performanceInsightRetention p \<noteq> None \<or> performanceInsightEncryptionKey p \<noteq> None))
       \<and> (\<forall>inst. AuroraClusterInstance scope i p = Inr inst \<longrightarrow>
            performanceInsightsEnabled inst =
              (enablePerformanceInsights p = Some True
               \<or> performanceInsightRetention p \<noteq> None \<or> performanceInsightEncryptionKey p \<noteq> None)
            \<and> this_performanceInsightRetention inst =
              (if performanceInsightsEnabled inst
               then Some (case performanceInsightRetention p of Some r \<Rightarrow> r | None \<Rightarrow> 7)
               else None))"
  using assms
  by (auto simp: AuroraClusterInstance_def Let_def is_defined_def PerformanceInsightRetention_DEFAULT_def
           split: option.splits)

text \<open>
  The theorem at a reader created with a retention of 31 days on a cluster of the stack:
  construction succeeds, insights are enabled and the retention is kept.
\<close>

theorem performanceInsights_validation_witness:
  "\<not> isl (bind (ClusterInstance_provisioned ''reader''
              (empty_ProvisionedClusterInstanceProps\<lparr>performanceInsightRetention := Some 31\<rparr>))
            [''Stack'', ''Database'']
            \<lparr>isOwnedResource = True, vpcSubnets = None, clusterIdentifier = ''db'',
             engineType = ''aurora-mysql''\<rparr>
            empty_ClusterInstanceBindOptions)
   \<and> map_sum (\<lambda>e. e) (\<lambda>inst. (performanceInsightsEnabled inst, this_performanceInsightRetention inst))
        (bind (ClusterInstance_provisioned ''reader''
              (empty_ProvisionedClusterInstanceProps\<lparr>performanceInsightRetention := Some 31\<rparr>))
            [''Stack'', ''Database'']
            \<lparr>isOwnedResource = True, vpcSubnets = None, clusterIdentifier = ''db'',
             engineType = ''aurora-mysql''\<rparr>
            empty_ClusterInstanceBindOptions) = Inr (True, Some 31)"
proof -
  let ?p = "ClusterInstanceProps.extend
              ((props (ClusterInstance_provisioned ''reader''
                 (empty_ProvisionedClusterInstanceProps\<lparr>performanceInsightRetention := Some 31\<rparr>)))
               \<lparr>promotionTier := None\<rparr>)
              (AuroraClusterInstanceProps.fields
                 \<lparr>isOwnedResource = True, vpcSubnets = None, clusterIdentifier = ''db'',
                  engineType = ''aurora-mysql''\<rparr> None)"
  have tier: "(case promotionTier ?p of Some t \<Rightarrow> t | None \<Rightarrow> 2) \<le> 15"
    by (simp add: props_defs)
  have enum: "performanceInsightRetention ?p \<noteq> Some 0"
    by (simp add: ClusterInstance_provisioned_def props_defs empty_defs)
  from performanceInsights_validation [OF tier enum, of "[''Stack'', ''Database'']" "''reader''"]
  show ?thesis
    by (simp add: bind_def ClusterInstance_provisioned_def props_defs empty_defs isl_def)
      (auto simp: AuroraClusterInstance_def Let_def is_defined_def props_defs)
qed

text \<open>
  Claim C2 as stated fails: with \<^verbatim>\<open>promotionTier: 16\<close> and none of the three Performance
  Insights options, construction raises a validation error (that of the promotion tier).
\<close>

theorem performanceInsights_validation_counterexample:
  "isl (bind (ClusterInstance_provisioned ''reader''
              (empty_ProvisionedClusterInstanceProps\<lparr>prov_promotionTier := Some 16\<rparr>))
            [''Stack'', ''Database'']
            \<lparr>isOwnedResource = True, vpcSubnets = None, clusterIdentifier = ''db'',
             engineType = ''aurora-mysql''\<rparr>
            empty_ClusterInstanceBindOptions)
   \<and> enablePerformanceInsights
        (empty_ProvisionedClusterInstanceProps\<lparr>prov_promotionTier := Some 16\<rparr>) = None
   \<and> performanceInsightRetention
        (empty_ProvisionedClusterInstanceProps\<lparr>prov_promotionTier := Some 16\<rparr>) = None
   \<and> performanceInsightEncryptionKey
        (empty_ProvisionedClusterInstanceProps\<lparr>prov_promotionTier := Some 16\<rparr>) = None"
  by (simp add: bind_def AuroraClusterInstance_def ClusterInstance_provisioned_def
        props_defs empty_defs Let_def)

text \<open>
  Claim C3 says that every promotion tier outside 0-15 is refused. The constructor tests
  \<^verbatim>\<open>this.tier > 15\<close> only: with \<^verbatim>\<open>promotionTier: -1\<close> construction succeeds, the tier of the
  instance is -1 and -1 is emitted as \<^verbatim>\<open>PromotionTier\<close>.
\<close>

theorem promotionTier_negative_accepted:
  "map_sum (\<lambda>e. e) (\<lambda>inst. (tier inst, PromotionTier (resource inst)))
     (bind (ClusterInstance_provisioned ''reader''
              (empty_ProvisionedClusterInstanceProps\<lparr>prov_promotionTier := Some (- 1)\<rparr>))
           [''Stack'', ''Database'']
           \<lparr>isOwnedResource = True, vpcSubnets = None, clusterIdentifier = ''db'',
            engineType = ''aurora-mysql''\<rparr>
           empty_ClusterInstanceBindOptions)
   = Inr (- 1, Some (- 1))"
  by (simp add: bind_def AuroraClusterInstance_def ClusterInstance_provisioned_def
        props_defs empty_defs is_defined_def Let_def)

text \<open>
  Claim C4, as amended. An explicit \<^verbatim>\<open>publiclyAccessible\<close> is emitted unchanged. Without
  one, on an owned cluster whose \<^verbatim>\<open>vpcSubnets\<close> selection is given, the emitted
  \<^verbatim>\<open>PubliclyAccessible\<close> is true if the selection is of subnet type PUBLIC and false
  otherwise; on a cluster that is not an owned resource the property is left undefined.
\<close>

theorem publiclyAccessible_default:
  assumes "AuroraClusterInstance scope i p = Inr inst"
  shows "(publiclyAccessible p = Some b \<longrightarrow> PubliclyAccessible (resource inst) = Some b)
       \<and> (publiclyAccessible p = None \<and> isOwnedResource (cluster p)
            \<and> vpcSubnets (cluster p) = Some sel \<longrightarrow>
          PubliclyAccessible (resource inst) = Some (subnetType sel = Some PUBLIC))
       \<and> (publiclyAccessible p = None \<and> \<not> isOwnedResource (cluster p) \<longrightarrow>
          PubliclyAccessible (resource inst) = None)"
  using assms
  by (auto simp: AuroraClusterInstance_def Let_def split: if_splits)

text \<open>
  The theorem of claim C4 at a reader of an owned cluster placed in PUBLIC subnets:
  \<^verbatim>\<open>PubliclyAccessible\<close> is emitted as true.
\<close>

theorem publiclyAccessible_default_witness:
  "map_sum (\<lambda>e. e) (\<lambda>inst. PubliclyAccessible (resource inst))
     (bind (ClusterInstance_provisioned ''reader'' empty_ProvisionedClusterInstanceProps)
           [''Stack'', ''Database'']
           \<lparr>isOwnedResource = True,
            vpcSubnets = Some \<lparr>subnetType = Some PUBLIC, subnetGroupName = None, onePerAz = None\<rparr>,
            clusterIdentifier = ''db'', engineType = ''aurora-mysql''\<rparr>
           empty_ClusterInstanceBindOptions)
   = Inr (Some True)"
proof -
  let ?sel = "\<lparr>subnetType = Some PUBLIC, subnetGroupName = None, onePerAz = None\<rparr>"
  let ?cl = "\<lparr>isOwnedResource = True, vpcSubnets = Some ?sel,
              clusterIdentifier = ''db'', engineType = ''aurora-mysql''\<rparr>"
  let ?p = "ClusterInstanceProps.extend
              (ClusterInstanceOptions.extend
                 (ClusterInstanceOptions.truncate empty_ProvisionedClusterInstanceProps)
                 (ClusterInstanceProps.fields (Some (ClusterInstanceType_provisioned None)) None))
              (AuroraClusterInstanceProps.fields ?cl None)"
  let ?r = "AuroraClusterInstance [''Stack'', ''Database''] ''reader'' ?p"
  have bound: "bind (ClusterInstance_provisioned ''reader'' empty_ProvisionedClusterInstanceProps)
           [''Stack'', ''Database''] ?cl empty_ClusterInstanceBindOptions = ?r"
    by (simp add: bind_provisioned_eq empty_defs props_defs)
  have "\<not> isl ?r"
    by (simp add: AuroraClusterInstance_def Let_def is_defined_def props_defs empty_defs)
  then obtain inst where inst: "?r = Inr inst"
    by (rule Inr_obtain)
  have "PubliclyAccessible (resource inst) = Some (subnetType ?sel = Some PUBLIC)"
    using publiclyAccessible_default [OF inst, of True ?sel]
    by (simp add: props_defs empty_defs)
  then show ?thesis
    by (simp add: bound inst)
qed

text \<open>
  Claim C4 as stated fails: without an explicit \<^verbatim>\<open>publiclyAccessible\<close>, the emitted property
  is undefined, not false, on a cluster that is not an owned resource, and also on an
  owned cluster created without \<^verbatim>\<open>vpcSubnets\<close>.
\<close>

theorem publiclyAccessible_default_counterexample:
  "map_sum (\<lambda>e. e) (\<lambda>inst. PubliclyAccessible (resource inst))
     (bind (ClusterInstance_provisioned ''reader'' empty_ProvisionedClusterInstanceProps)
           [''Stack'', ''Database'']
           \<lparr>isOwnedResource = False, vpcSubnets = None, clusterIdentifier = ''db'',
            engineType = ''aurora-mysql''\<rparr>
           empty_ClusterInstanceBindOptions)
   = Inr None
   \<and> map_sum (\<lambda>e. e) (\<lambda>inst. PubliclyAccessible (resource inst))
     (bind (ClusterInstance_provisioned ''reader'' empty_ProvisionedClusterInstanceProps)
           [''Stack'', ''Database'']
           \<lparr>isOwnedResource = True, vpcSubnets = None, clusterIdentifier = ''db'',
            engineType = ''aurora-mysql''\<rparr>
           empty_ClusterInstanceBindOptions)
   = Inr None"
  by (simp add: bind_def AuroraClusterInstance_def ClusterInstance_provisioned_def
        props_defs empty_defs is_defined_def Let_def)

text \<open>
  Claim C6. \<^verbatim>\<open>databaseInstanceType\<close> prefixes \<^verbatim>\<open>db.\<close> to the name of a provisioned instance
  type (\<^verbatim>\<open>db.t3.medium\<close> when no type is given) and returns \<^verbatim>\<open>db.serverless\<close> as it is for
  serverless v2; and that is the \<^verbatim>\<open>DBInstanceClass\<close> emitted for every instance bound from
  \<^verbatim>\<open>ClusterInstance.provisioned\<close> and from \<^verbatim>\<open>ClusterInstance.serverlessV2\<close>.
\<close>

theorem dbInstanceClass_mechanical:
  "databaseInstanceType (ClusterInstanceType_provisioned (Some t))
     = ''db.'' @ instanceTypeIdentifier t
   \<and> databaseInstanceType (ClusterInstanceType_provisioned None) = ''db.t3.medium''
   \<and> databaseInstanceType ClusterInstanceType_serverlessV2 = ''db.serverless''
   \<and> (bind (ClusterInstance_provisioned i p) scope cl opts = Inr inst \<longrightarrow>
        DBInstanceClass (resource inst) =
          Some (''db.'' @ (case prov_instanceType p of
                            Some t \<Rightarrow> instanceTypeIdentifier t
                          | None \<Rightarrow> ''t3.medium'')))
   \<and> (bind (ClusterInstance_serverlessV2 i' q) scope' cl' opts' = Inr inst' \<longrightarrow>
        DBInstanceClass (resource inst') = Some ''db.serverless'')"
proof -
  have prov: "DBInstanceClass (resource inst) =
          Some (''db.'' @ (case prov_instanceType p of
                            Some t \<Rightarrow> instanceTypeIdentifier t
                          | None \<Rightarrow> ''t3.medium''))"
    if "bind (ClusterInstance_provisioned i p) scope cl opts = Inr inst"
    using AuroraClusterInstance_DBInstanceClass [OF that [unfolded bind_provisioned_eq]]
    by (simp add: props_defs databaseInstanceType_provisioned)
  have sv2: "DBInstanceClass (resource inst') = Some ''db.serverless''"
    if "bind (ClusterInstance_serverlessV2 i' q) scope' cl' opts' = Inr inst'"
    using AuroraClusterInstance_DBInstanceClass [OF that [unfolded bind_serverlessV2_eq]]
    by (simp add: props_defs databaseInstanceType_serverlessV2)
  show ?thesis
    using prov sv2
    by (simp add: databaseInstanceType_provisioned databaseInstanceType_serverlessV2)
qed

text \<open>
  The theorem of claim C6 at a provisioned \<^verbatim>\<open>r6g.4xlarge\<close> writer and a serverless v2
  reader.
\<close>

theorem dbInstanceClass_mechanical_witness:
  "map_sum (\<lambda>e. e) (\<lambda>inst. DBInstanceClass (resource inst))
     (bind (ClusterInstance_provisioned ''writer''
              (empty_ProvisionedClusterInstanceProps
                 \<lparr>prov_instanceType := Some \<lparr>instanceTypeIdentifier = ''r6g.4xlarge''\<rparr>\<rparr>))
           [''Stack'', ''Database'']
           \<lparr>isOwnedResource = True, vpcSubnets = None, clusterIdentifier = ''db'',
            engineType = ''aurora-mysql''\<rparr>
           empty_ClusterInstanceBindOptions)
   = Inr (Some ''db.r6g.4xlarge'')
   \<and> map_sum (\<lambda>e. e) (\<lambda>inst. DBInstanceClass (resource inst))
     (bind (ClusterInstance_serverlessV2 ''reader1'' empty_ServerlessV2ClusterInstanceProps)
           [''Stack'', ''Database'']
           \<lparr>isOwnedResource = True, vpcSubnets = None, clusterIdentifier = ''db'',
            engineType = ''aurora-mysql''\<rparr>
           empty_ClusterInstanceBindOptions)
   = Inr (Some ''db.serverless'')"
proof -
  let ?cl = "\<lparr>isOwnedResource = True, vpcSubnets = None, clusterIdentifier = ''db'',
              engineType = ''aurora-mysql''\<rparr>"
  let ?pp = "empty_ProvisionedClusterInstanceProps
               \<lparr>prov_instanceType := Some \<lparr>instanceTypeIdentifier = ''r6g.4xlarge''\<rparr>\<rparr>"
  let ?r1 = "bind (ClusterInstance_provisioned ''writer'' ?pp)
               [''Stack'', ''Database''] ?cl empty_ClusterInstanceBindOptions"
  let ?r2 = "bind (ClusterInstance_serverlessV2 ''reader1'' empty_ServerlessV2ClusterInstanceProps)
               [''Stack'', ''Database''] ?cl empty_ClusterInstanceBindOptions"
  have "\<not> isl ?r1"
    by (simp add: bind_provisioned_eq AuroraClusterInstance_def Let_def is_defined_def
          props_defs empty_defs)
  then obtain i1 where i1: "?r1 = Inr i1"
    by (rule Inr_obtain)
  have "\<not> isl ?r2"
    by (simp add: bind_serverlessV2_eq AuroraClusterInstance_def Let_def is_defined_def
          props_defs empty_defs)
  then obtain i2 where i2: "?r2 = Inr i2"
    by (rule Inr_obtain)
  from dbInstanceClass_mechanical
         [of _ "''writer''" ?pp "[''Stack'', ''Database'']" ?cl empty_ClusterInstanceBindOptions i1
             "''reader1''" empty_ServerlessV2ClusterInstanceProps "[''Stack'', ''Database'']" ?cl
             empty_ClusterInstanceBindOptions i2]
  have "DBInstanceClass (resource i1) = Some ''db.r6g.4xlarge''"
   and "DBInstanceClass (resource i2) = Some ''db.serverless''"
    using i1 i2 by (simp_all add: props_defs empty_defs)
  then show ?thesis
    by (simp add: i1 i2)
qed

text \<open>
  Claim C7, as amended. The \<^verbatim>\<open>ClusterInstance\<close> that \<^verbatim>\<open>ClusterInstance.serverlessV2(id, p)\<close>
  returns carries promotion tier 1 when \<^verbatim>\<open>p.scaleWithWriter\<close> is true and 2 otherwise,
  also when it is omitted. \<^verbatim>\<open>bind\<close> spreads its options last: an instance bound from it
  is created in that tier when the bind options have no \<^verbatim>\<open>promotionTier\<close> key, and in the
  tier of that key when they have one (2 when the key is undefined).
\<close>

theorem serverlessV2_promotionTier:
  "promotionTier (props (ClusterInstance_serverlessV2 i p))
     = Some (if scaleWithWriter p = Some True then 1 else 2)
   \<and> (bind (ClusterInstance_serverlessV2 i p) scope cl opts = Inr inst \<longrightarrow>
        tier inst =
          (case bind_promotionTier opts of
             None \<Rightarrow> if scaleWithWriter p = Some True then 1 else 2
           | Some None \<Rightarrow> 2
           | Some (Some t) \<Rightarrow> t))"
proof -
  have "tier inst =
          (case bind_promotionTier opts of
             None \<Rightarrow> if scaleWithWriter p = Some True then 1 else 2
           | Some None \<Rightarrow> 2
           | Some (Some t) \<Rightarrow> t)"
    if "bind (ClusterInstance_serverlessV2 i p) scope cl opts = Inr inst"
    using AuroraClusterInstance_Inr(1) [OF that [unfolded bind_serverlessV2_eq]]
    by (simp add: props_defs split: option.splits)
  then show ?thesis
    by (simp add: ClusterInstance_serverlessV2_def props_defs)
qed

text \<open>
  The theorem at the two readers of the class documentation, bound without a
  \<^verbatim>\<open>promotionTier\<close> key: \<^verbatim>\<open>reader1\<close> scales with the writer and is in tier 1, \<^verbatim>\<open>reader2\<close> is
  in tier 2.
\<close>

theorem serverlessV2_promotionTier_witness:
  "map_sum (\<lambda>e. e) tier
     (bind (ClusterInstance_serverlessV2 ''reader1''
              (empty_ServerlessV2ClusterInstanceProps\<lparr>scaleWithWriter := Some True\<rparr>))
           [''Stack'', ''Database'']
           \<lparr>isOwnedResource = True, vpcSubnets = None, clusterIdentifier = ''db'',
            engineType = ''aurora-mysql''\<rparr>
           empty_ClusterInstanceBindOptions)
   = Inr 1
   \<and> map_sum (\<lambda>e. e) tier
     (bind (ClusterInstance_serverlessV2 ''reader2'' empty_ServerlessV2ClusterInstanceProps)
           [''Stack'', ''Database'']
           \<lparr>isOwnedResource = True, vpcSubnets = None, clusterIdentifier = ''db'',
            engineType = ''aurora-mysql''\<rparr>
           empty_ClusterInstanceBindOptions)
   = Inr 2"
proof -
  let ?cl = "\<lparr>isOwnedResource = True, vpcSubnets = None, clusterIdentifier = ''db'',
              engineType = ''aurora-mysql''\<rparr>"
  let ?q = "empty_ServerlessV2ClusterInstanceProps\<lparr>scaleWithWriter := Some True\<rparr>"
  let ?r1 = "bind (ClusterInstance_serverlessV2 ''reader1'' ?q)
               [''Stack'', ''Database''] ?cl empty_ClusterInstanceBindOptions"
  let ?r2 = "bind (ClusterInstance_serverlessV2 ''reader2'' empty_ServerlessV2ClusterInstanceProps)
               [''Stack'', ''Database''] ?cl empty_ClusterInstanceBindOptions"
  have "\<not> isl ?r1"
    by (simp add: bind_serverlessV2_eq AuroraClusterInstance_def Let_def is_defined_def
          props_defs empty_defs)
  then obtain i1 where i1: "?r1 = Inr i1"
    by (rule Inr_obtain)
  have "\<not> isl ?r2"
    by (simp add: bind_serverlessV2_eq AuroraClusterInstance_def Let_def is_defined_def
          props_defs empty_defs)
  then obtain i2 where i2: "?r2 = Inr i2"
    by (rule Inr_obtain)
  have "tier i1 = 1"
    using serverlessV2_promotionTier
            [of "''reader1''" ?q "[''Stack'', ''Database'']" ?cl empty_ClusterInstanceBindOptions i1]
          i1
    by (simp add: props_defs empty_defs)
  moreover have "tier i2 = 2"
    using serverlessV2_promotionTier
            [of "''reader2''" empty_ServerlessV2ClusterInstanceProps "[''Stack'', ''Database'']"
                ?cl empty_ClusterInstanceBindOptions i2]
          i2
    by (simp add: props_defs empty_defs)
  ultimately show ?thesis
    by (simp add: i1 i2)
qed

text \<open>
  Claim C7 as stated fails: \<^verbatim>\<open>serverlessV2(id, { scaleWithWriter: true })\<close> bound with
  \<^verbatim>\<open>{ promotionTier: 0 }\<close> creates an instance in tier 0, not 1.
\<close>

theorem serverlessV2_promotionTier_counterexample:
  "scaleWithWriter (empty_ServerlessV2ClusterInstanceProps\<lparr>scaleWithWriter := Some True\<rparr>)
     = Some True
   \<and> map_sum (\<lambda>e. e) tier
     (bind (ClusterInstance_serverlessV2 ''writer''
              (empty_ServerlessV2ClusterInstanceProps\<lparr>scaleWithWriter := Some True\<rparr>))
           [''Stack'', ''Database'']
           \<lparr>isOwnedResource = True, vpcSubnets = None, clusterIdentifier = ''db'',
            engineType = ''aurora-mysql''\<rparr>
           \<lparr>monitoringInterval = None, bind_promotionTier = Some (Some 0)\<rparr>)
   = Inr 0"
  by (simp add: bind_def AuroraClusterInstance_def ClusterInstance_serverlessV2_def
        props_defs empty_defs is_defined_def Let_def)

section \<open>Redshift cluster subnet groups: properties\<close>

text \<open>
  Claim C5. A \<^verbatim>\<open>ClusterSubnetGroup\<close> created without \<^verbatim>\<open>vpcSubnets\<close> places in the emitted
  resource exactly the subnet ids that the VPC selects for
  \<^verbatim>\<open>{ subnetType: PRIVATE_WITH_EGRESS }\<close>; created without \<^verbatim>\<open>removalPolicy\<close>, the one removal
  policy applied to the resource is RETAIN, with \<^verbatim>\<open>applyToUpdateReplacePolicy: true\<close>.
\<close>

theorem ClusterSubnetGroup_defaults:
  "(vpcSubnets' p = None \<longrightarrow>
      SubnetIds (subnetGroup (ClusterSubnetGroup scope i p)) =
        subnetIds (selectSubnets (vpc p)
          \<lparr>subnetType = Some PRIVATE_WITH_EGRESS, subnetGroupName = None, onePerAz = None\<rparr>))
   \<and> (removalPolicy p = None \<longrightarrow>
      removalPolicyCalls (subnetGroup (ClusterSubnetGroup scope i p)) =
        [(RETAIN, \<lparr>applyToUpdateReplacePolicy = Some True\<rparr>)])"
  by (simp add: ClusterSubnetGroup_def CfnClusterSubnetGroup_def applyRemovalPolicy_def Let_def)

text \<open>
  The theorem of claim C5 at a VPC with two private subnets and one public subnet.
\<close>

theorem ClusterSubnetGroup_defaults_witness:
  "SubnetIds (subnetGroup (ClusterSubnetGroup [''Stack''] ''Group''
      \<lparr>description = ''subnets of the cluster'',
       vpc = \<lparr>selectSubnets = (\<lambda>sel. \<lparr>subnetIds =
                (if subnetType sel = Some PRIVATE_WITH_EGRESS
                 then [''subnet-private-1'', ''subnet-private-2'']
                 else [''subnet-public-1''])\<rparr>)\<rparr>,
       vpcSubnets' = None, removalPolicy = None\<rparr>))
     = [''subnet-private-1'', ''subnet-private-2'']
   \<and> removalPolicyCalls (subnetGroup (ClusterSubnetGroup [''Stack''] ''Group''
      \<lparr>description = ''subnets of the cluster'',
       vpc = \<lparr>selectSubnets = (\<lambda>sel. \<lparr>subnetIds =
                (if subnetType sel = Some PRIVATE_WITH_EGRESS
                 then [''subnet-private-1'', ''subnet-private-2'']
                 else [''subnet-public-1''])\<rparr>)\<rparr>,
       vpcSubnets' = None, removalPolicy = None\<rparr>))
     = [(RETAIN, \<lparr>applyToUpdateReplacePolicy = Some True\<rparr>)]"
  using ClusterSubnetGroup_defaults [of
      "\<lparr>description = ''subnets of the cluster'',
       vpc = \<lparr>selectSubnets = (\<lambda>sel. \<lparr>subnetIds =
                (if subnetType sel = Some PRIVATE_WITH_EGRESS
                 then [''subnet-private-1'', ''subnet-private-2'']
                 else [''subnet-public-1''])\<rparr>)\<rparr>,
       vpcSubnets' = None, removalPolicy = None\<rparr>" "[''Stack'']" "''Group''"]
  by simp

text \<open>
  Claim C8. The \<^verbatim>\<open>clusterSubnetGroupName\<close> of a \<^verbatim>\<open>ClusterSubnetGroup\<close> is the \<^verbatim>\<open>ref\<close> of its
  \<^verbatim>\<open>CfnClusterSubnetGroup\<close>, the child \<^verbatim>\<open>Default\<close>: a token, no concrete name, which
  synthesis resolves to the \<^verbatim>\<open>Ref\<close> intrinsic over the logical id of that child.
\<close>

theorem clusterSubnetGroupName_is_Ref_token:
  "clusterSubnetGroupName (ClusterSubnetGroup scope i p) = ref (subnetGroup (ClusterSubnetGroup scope i p))
   \<and> clusterSubnetGroupName (ClusterSubnetGroup scope i p) = Tokenized (Ref (scope @ [i, ''Default'']))
   \<and> clusterSubnetGroupName (ClusterSubnetGroup scope i p) \<noteq> Concrete name
   \<and> resolve logicalId (clusterSubnetGroupName (ClusterSubnetGroup scope i p))
       = RefIntrinsic (logicalId (scope @ [i, ''Default'']))"
  by (simp add: ClusterSubnetGroup_def CfnClusterSubnetGroup_def applyRemovalPolicy_def ref_def Let_def)

section \<open>Immutable roles: properties\<close>

text \<open>
  Claim C9, as amended. Whatever the argument, \<^verbatim>\<open>attachInlinePolicy\<close>,
  \<^verbatim>\<open>addManagedPolicy\<close>, \<^verbatim>\<open>addToPrincipalPolicy\<close> and \<^verbatim>\<open>addToPolicy\<close> leave every field of
  the wrapper as it was, the wrapped role and its policies among them, except the
  metadata of the construct node, where the method decorator records the call.
  \<^verbatim>\<open>addToPrincipalPolicy\<close> returns \<^verbatim>\<open>statementAdded\<close> equal to the negation of
  \<^verbatim>\<open>addGrantsToResources\<close> and an empty dependency group, and \<^verbatim>\<open>addToPolicy\<close> returns that
  same \<^verbatim>\<open>statementAdded\<close>.
\<close>

theorem ImmutableRole_ignores_mutations:
  "(attachInlinePolicy M this pol)\<lparr>metadata := metadata this\<rparr> = this
   \<and> (addManagedPolicy M this mp)\<lparr>metadata := metadata this\<rparr> = this
   \<and> (fst (addToPrincipalPolicy M this st))\<lparr>metadata := metadata this\<rparr> = this
   \<and> (fst (addToPolicy M this st))\<lparr>metadata := metadata this\<rparr> = this
   \<and> role (attachInlinePolicy M this pol) = role this
   \<and> role (addManagedPolicy M this mp) = role this
   \<and> role (fst (addToPrincipalPolicy M this st)) = role this
   \<and> role (fst (addToPolicy M this st)) = role this
   \<and> statementAdded (snd (addToPrincipalPolicy M this st)) = (\<not> addGrantsToResources this)
   \<and> policyDependable (snd (addToPrincipalPolicy M this st)) = []
   \<and> snd (addToPolicy M this st) = statementAdded (snd (addToPrincipalPolicy M this st))"
  by (simp add: attachInlinePolicy_def addManagedPolicy_def addToPrincipalPolicy_def
        addToPolicy_def Let_def)

text \<open>
  Claim C9 as stated fails: with a decorator that appends the name of the method to the
  metadata of the node, \<^verbatim>\<open>attachInlinePolicy\<close> changes that metadata from empty to one entry.
\<close>

theorem ImmutableRole_ignores_mutations_counterexample:
  "metadata
     (ImmutableRole (\<lambda>r. [])
        [''Stack''] ''ImmutableRole''
        \<lparr>assumeRoleAction = ''sts:AssumeRole'', policyFragment = [],
         principalAccount = Some ''123456789012'',
         roleArn = Concrete ''arn:aws:iam::123456789012:role/TestRole'',
         roleName = Concrete ''TestRole'', stack = [''Stack''],
         role_path = [''Stack'', ''Role''], env_account = ''123456789012'',
         env_region = ''us-east-1'', node_defaultChild = None, inlinePolicies = [],
         managedPolicies = [], policyStatements = [],
         grant = (\<lambda>(grantee :: string) acts. True), grantPassRole = (\<lambda>grantee. True),
         grantAssumeRole = (\<lambda>grantee. True)\<rparr>
        False)
     = ([] :: string list)
   \<and> metadata
     (attachInlinePolicy (\<lambda>name args m. m @ [name])
        (ImmutableRole (\<lambda>r. [])
           [''Stack''] ''ImmutableRole''
           \<lparr>assumeRoleAction = ''sts:AssumeRole'', policyFragment = [],
            principalAccount = Some ''123456789012'',
            roleArn = Concrete ''arn:aws:iam::123456789012:role/TestRole'',
            roleName = Concrete ''TestRole'', stack = [''Stack''],
            role_path = [''Stack'', ''Role''], env_account = ''123456789012'',
            env_region = ''us-east-1'', node_defaultChild = None, inlinePolicies = [],
            managedPolicies = [], policyStatements = [],
            grant = (\<lambda>(grantee :: string) acts. True), grantPassRole = (\<lambda>grantee. True),
            grantAssumeRole = (\<lambda>grantee. True)\<rparr>
           False)
        \<lparr>policyName = ''userpool-policy'',
         statements = [\<lparr>actions = [''cognito-idp:DescribeUserPool''], resources = [''*'']\<rparr>]\<rparr>)
     = [''attachInlinePolicy'']"
  by (simp add: ImmutableRole_def attachInlinePolicy_def)

text \<open>
  Claim C10. The attributes \<^verbatim>\<open>roleArn\<close>, \<^verbatim>\<open>roleName\<close>, \<^verbatim>\<open>assumeRoleAction\<close>,
  \<^verbatim>\<open>policyFragment\<close>, \<^verbatim>\<open>principalAccount\<close> and \<^verbatim>\<open>stack\<close> of an \<^verbatim>\<open>ImmutableRole\<close> wrapping
  \<open>r\<close> are those of \<open>r\<close>, and \<^verbatim>\<open>grant\<close>, \<^verbatim>\<open>grantPassRole\<close> and \<^verbatim>\<open>grantAssumeRole\<close>
  return what the same method of \<open>r\<close> returns on the same arguments.
\<close>

theorem ImmutableRole_delegates:
  "roleArn (ImmutableRole acm scope i r flag) = roleArn r
   \<and> roleName (ImmutableRole acm scope i r flag) = roleName r
   \<and> assumeRoleAction (ImmutableRole acm scope i r flag) = assumeRoleAction r
   \<and> policyFragment (ImmutableRole acm scope i r flag) = policyFragment r
   \<and> principalAccount (ImmutableRole acm scope i r flag) = principalAccount r
   \<and> stack (ImmutableRole acm scope i r flag) = stack r
   \<and> snd (ImmutableRole_grant M (ImmutableRole acm scope i r flag) grantee acts)
       = grant r grantee acts
   \<and> snd (ImmutableRole_grantPassRole M (ImmutableRole acm scope i r flag) grantee)
       = grantPassRole r grantee
   \<and> snd (ImmutableRole_grantAssumeRole M (ImmutableRole acm scope i r flag) grantee)
       = grantAssumeRole r grantee"
  by (simp add: ImmutableRole_def ImmutableRole_grant_def ImmutableRole_grantPassRole_def
        ImmutableRole_grantAssumeRole_def)

end
